theory Spec2Isabelle
  imports Complex_Main "HOL-Library.Monad_Syntax" "HOL-Library.Multiset"
begin

section \<open>The red-black tree engine of analyze.py (class RBTree)\<close>

text \<open>
  Python objects are addresses (\<open>ref\<close>) into a store that holds one map per attribute
  of \<open>RBNode\<close>. The sentinel \<open>self.NIL\<close> is the address \<open>0\<close>; \<open>fresh\<close> is the next
  unused address, so that \<open>RBNode(key, RED)\<close> allocates there. The attribute \<open>parent\<close>
  is \<open>None\<close> for the root (and for the untouched sentinel), hence an option; \<open>left\<close>
  and \<open>right\<close> are assigned right after construction and always hold a node. The key
  of the sentinel (\<open>None\<close> in Python) is never read by the engine and is kept as \<open>0\<close>.

  A method that dereferences \<open>None\<close> raises, and a loop over a malformed store may not
  end: both are the result \<open>None\<close> of the model ("the call does not return normally").
\<close>

type_synonym ref = nat

abbreviation RED :: bool where "RED \<equiv> True"
abbreviation BLACK :: bool where "BLACK \<equiv> False"

definition NIL :: ref where
  "NIL = 0"

record rbtree =
  key :: "ref \<Rightarrow> int"
  color :: "ref \<Rightarrow> bool"
  left :: "ref \<Rightarrow> ref"
  right :: "ref \<Rightarrow> ref"
  parent :: "ref \<Rightarrow> ref option"
  root :: ref
  fresh :: ref

definition set_key :: "ref \<Rightarrow> int \<Rightarrow> rbtree \<Rightarrow> rbtree" where
  "set_key a v s = s\<lparr>key := (key s)(a := v)\<rparr>"

definition set_color :: "ref \<Rightarrow> bool \<Rightarrow> rbtree \<Rightarrow> rbtree" where
  "set_color a v s = s\<lparr>color := (color s)(a := v)\<rparr>"

definition set_left :: "ref \<Rightarrow> ref \<Rightarrow> rbtree \<Rightarrow> rbtree" where
  "set_left a v s = s\<lparr>left := (left s)(a := v)\<rparr>"

definition set_right :: "ref \<Rightarrow> ref \<Rightarrow> rbtree \<Rightarrow> rbtree" where
  "set_right a v s = s\<lparr>right := (right s)(a := v)\<rparr>"

definition set_parent :: "ref \<Rightarrow> ref option \<Rightarrow> rbtree \<Rightarrow> rbtree" where
  "set_parent a v s = s\<lparr>parent := (parent s)(a := v)\<rparr>"

definition set_root :: "ref \<Rightarrow> rbtree \<Rightarrow> rbtree" where
  "set_root v s = s\<lparr>root := v\<rparr>"

text \<open>\<open>RBTree.__init__\<close>: the sentinel is BLACK, its own left and right child.\<close>

definition new_tree :: rbtree where
  "new_tree = \<lparr>key = (\<lambda>_. 0), color = (\<lambda>_. BLACK), left = (\<lambda>_. NIL), right = (\<lambda>_. NIL),
     parent = (\<lambda>_. None), root = NIL, fresh = Suc NIL\<rparr>"

text \<open>\<open>z = RBNode(key, RED); z.left = self.NIL; z.right = self.NIL\<close>.\<close>

definition new_node :: "int \<Rightarrow> rbtree \<Rightarrow> ref \<times> rbtree" where
  "new_node k s =
     (let z = fresh s
      in (z, s\<lparr>key := (key s)(z := k), color := (color s)(z := RED),
               left := (left s)(z := NIL), right := (right s)(z := NIL),
               parent := (parent s)(z := None), fresh := Suc z\<rparr>))"

definition left_rotate :: "ref \<Rightarrow> rbtree \<Rightarrow> rbtree" where
  "left_rotate x s0 =
     (let y = right s0 x;
          s1 = set_right x (left s0 y) s0;
          s2 = (if left s1 y \<noteq> NIL then set_parent (left s1 y) (Some x) s1 else s1);
          s3 = set_parent y (parent s2 x) s2;
          s4 = (case parent s3 x of
                  None \<Rightarrow> set_root y s3
                | Some p \<Rightarrow> if x = left s3 p then set_left p y s3 else set_right p y s3);
          s5 = set_left y x s4
      in set_parent x (Some y) s5)"

definition right_rotate :: "ref \<Rightarrow> rbtree \<Rightarrow> rbtree" where
  "right_rotate y s0 =
     (let x = left s0 y;
          s1 = set_left y (right s0 x) s0;
          s2 = (if right s1 x \<noteq> NIL then set_parent (right s1 x) (Some y) s1 else s1);
          s3 = set_parent x (parent s2 y) s2;
          s4 = (case parent s3 y of
                  None \<Rightarrow> set_root x s3
                | Some p \<Rightarrow> if y = left s3 p then set_left p x s3 else set_right p x s3);
          s5 = set_right x y s4
      in set_parent y (Some x) s5)"

text \<open>
  \<open>_insert_fix\<close>: one call of \<open>insert_fix\<close> is one test of the loop condition followed by
  one iteration. \<open>z.parent.parent\<close> raises when \<open>z.parent\<close> is the root. An attribute
  \<open>parent\<close> is read again after every rotation, as the source does; recolouring does
  not change it.
\<close>

partial_function (option) insert_fix :: "ref \<Rightarrow> rbtree \<Rightarrow> rbtree option" where
  "insert_fix z s =
     (case parent s z of
        None \<Rightarrow> Some (set_color (root s) BLACK s)
      | Some p \<Rightarrow>
          if color s p \<noteq> RED then Some (set_color (root s) BLACK s)
          else do {
            g \<leftarrow> parent s p;
            if p = left s g then
              (let u = right s g in
               if color s u = RED then
                 insert_fix g (set_color g RED (set_color u BLACK (set_color p BLACK s)))
               else do {
                 let (z1, s1) = (if z = right s p then (p, left_rotate p s) else (z, s));
                 p1 \<leftarrow> parent s1 z1;
                 let s2 = set_color p1 BLACK s1;
                 g1 \<leftarrow> parent s2 p1;
                 let s3 = set_color g1 RED s2;
                 insert_fix z1 (right_rotate g1 s3)
               })
            else
              (let u = left s g in
               if color s u = RED then
                 insert_fix g (set_color g RED (set_color u BLACK (set_color p BLACK s)))
               else do {
                 let (z1, s1) = (if z = left s p then (p, right_rotate p s) else (z, s));
                 p1 \<leftarrow> parent s1 z1;
                 let s2 = set_color p1 BLACK s1;
                 g1 \<leftarrow> parent s2 p1;
                 let s3 = set_color g1 RED s2;
                 insert_fix z1 (left_rotate g1 s3)
               })
          })"

declare insert_fix.simps [code]

text \<open>The descent of \<open>RBTree.insert\<close>: \<open>while x is not self.NIL: y = x; x = x.left if key < x.key else x.right\<close>.\<close>

partial_function (option) insert_walk :: "int \<Rightarrow> rbtree \<Rightarrow> ref option \<Rightarrow> ref \<Rightarrow> ref option option" where
  "insert_walk k s y x =
     (if x \<noteq> NIL then insert_walk k s (Some x) (if k < key s x then left s x else right s x)
      else Some y)"

declare insert_walk.simps [code]

definition RBTree_insert :: "int \<Rightarrow> rbtree \<Rightarrow> rbtree option" where
  "RBTree_insert k s0 =
     (let (z, s1) = new_node k s0 in
      case insert_walk k s1 None (root s1) of
        None \<Rightarrow> None
      | Some y \<Rightarrow>
          (let s2 = set_parent z y s1;
               s3 = (case y of
                       None \<Rightarrow> set_root z s2
                     | Some y' \<Rightarrow> if k < key s2 y' then set_left y' z s2 else set_right y' z s2)
           in insert_fix z s3))"

text \<open>\<open>_transplant\<close>, \<open>_tree_minimum\<close> and \<open>_search\<close>.\<close>

definition transplant :: "ref \<Rightarrow> ref \<Rightarrow> rbtree \<Rightarrow> rbtree" where
  "transplant u v s =
     (let s1 = (case parent s u of
                  None \<Rightarrow> set_root v s
                | Some p \<Rightarrow> if u = left s p then set_left p v s else set_right p v s)
      in set_parent v (parent s1 u) s1)"

partial_function (option) tree_minimum :: "rbtree \<Rightarrow> ref \<Rightarrow> ref option" where
  "tree_minimum s x = (if left s x \<noteq> NIL then tree_minimum s (left s x) else Some x)"

declare tree_minimum.simps [code]

partial_function (option) search :: "rbtree \<Rightarrow> ref \<Rightarrow> int \<Rightarrow> ref option" where
  "search s node k =
     (if node \<noteq> NIL \<and> k \<noteq> key s node
      then search s (if k < key s node then left s node else right s node) k
      else Some node)"

declare search.simps [code]

text \<open>
  \<open>_delete_fix\<close>: one call is one test of the loop condition followed by one iteration;
  \<open>x.parent.left\<close> raises when \<open>x.parent\<close> is \<open>None\<close>. \<open>x.parent\<close> is read again
  after every rotation.
\<close>

partial_function (option) delete_fix :: "ref \<Rightarrow> rbtree \<Rightarrow> rbtree option" where
  "delete_fix x s =
     (if x \<noteq> root s \<and> color s x = BLACK then do {
        p \<leftarrow> parent s x;
        if x = left s p then do {
          (p1, w1, s1) \<leftarrow>
            (if color s (right s p) = RED then do {
               let t = left_rotate p (set_color p RED (set_color (right s p) BLACK s));
               q \<leftarrow> parent t x;
               Some (q, right t q, t)
             } else Some (p, right s p, s));
          if color s1 (left s1 w1) = BLACK \<and> color s1 (right s1 w1) = BLACK then
            delete_fix p1 (set_color w1 RED s1)
          else do {
            (p2, w2, s2) \<leftarrow>
              (if color s1 (right s1 w1) = BLACK then do {
                 let t = right_rotate w1 (set_color w1 RED (set_color (left s1 w1) BLACK s1));
                 q \<leftarrow> parent t x;
                 Some (q, right t q, t)
               } else Some (p1, w1, s1));
            let s3 = set_color w2 (color s2 p2) s2;
            let s4 = set_color p2 BLACK s3;
            let s5 = set_color (right s4 w2) BLACK s4;
            let s6 = left_rotate p2 s5;
            delete_fix (root s6) s6
          }
        } else do {
          (p1, w1, s1) \<leftarrow>
            (if color s (left s p) = RED then do {
               let t = right_rotate p (set_color p RED (set_color (left s p) BLACK s));
               q \<leftarrow> parent t x;
               Some (q, left t q, t)
             } else Some (p, left s p, s));
          if color s1 (right s1 w1) = BLACK \<and> color s1 (left s1 w1) = BLACK then
            delete_fix p1 (set_color w1 RED s1)
          else do {
            (p2, w2, s2) \<leftarrow>
              (if color s1 (left s1 w1) = BLACK then do {
                 let t = left_rotate w1 (set_color w1 RED (set_color (right s1 w1) BLACK s1));
                 q \<leftarrow> parent t x;
                 Some (q, left t q, t)
               } else Some (p1, w1, s1));
            let s3 = set_color w2 (color s2 p2) s2;
            let s4 = set_color p2 BLACK s3;
            let s5 = set_color (left s4 w2) BLACK s4;
            let s6 = right_rotate p2 s5;
            delete_fix (root s6) s6
          }
        }
      } else Some (set_color x BLACK s))"

declare delete_fix.simps [code]

text \<open>\<open>RBTree.delete\<close>. The result triple is \<open>(x, y_orig, store)\<close>.\<close>

definition RBTree_delete :: "int \<Rightarrow> rbtree \<Rightarrow> rbtree option" where
  "RBTree_delete k s = do {
     z \<leftarrow> search s (root s) k;
     if z = NIL then Some s
     else do {
       (x, y_orig, s') \<leftarrow>
         (if left s z = NIL then Some (right s z, color s z, transplant z (right s z) s)
          else if right s z = NIL then Some (left s z, color s z, transplant z (left s z) s)
          else do {
            y \<leftarrow> tree_minimum s (right s z);
            let y_orig = color s y;
            let x = right s y;
            let s1 = (if parent s y = Some z then set_parent x (Some y) s
                      else (let t1 = transplant y (right s y) s;
                                t2 = set_right y (right t1 z) t1
                            in set_parent (right t2 y) (Some y) t2));
            let s2 = transplant z y s1;
            let s3 = set_left y (left s2 z) s2;
            let s4 = set_parent (left s3 y) (Some y) s3;
            Some (x, y_orig, set_color y (color s4 z) s4)
          });
       if y_orig = BLACK then delete_fix x s' else Some s'
     }
   }"

text \<open>
  \<open>to_tuple\<close>: the fingerprint \<open>(key, color, left, right)\<close>, with \<open>FNone\<close> for Python's
  \<open>None\<close> at the sentinel.
\<close>

datatype fingerprint = FNone | FNode int bool fingerprint fingerprint

partial_function (option) to_tuple_node :: "rbtree \<Rightarrow> ref \<Rightarrow> fingerprint option" where
  "to_tuple_node s node =
     (if node = NIL then Some FNone
      else do {
        l \<leftarrow> to_tuple_node s (left s node);
        r \<leftarrow> to_tuple_node s (right s node);
        Some (FNode (key s node) (color s node) l r)
      })"

declare to_tuple_node.simps [code]

definition to_tuple :: "rbtree \<Rightarrow> fingerprint option" where
  "to_tuple s = to_tuple_node s (root s)"

text \<open>\<open>execute_steps\<close>: a step is \<open>(action, key, is_helper)\<close>.\<close>

type_synonym step = "string \<times> int \<times> bool"

fun run_steps :: "rbtree \<Rightarrow> step list \<Rightarrow> rbtree option" where
  "run_steps t [] = Some t"
| "run_steps t ((action, k, h) # steps) =
     do {
       t' \<leftarrow> (if action = ''INSERT'' then RBTree_insert k t else RBTree_delete k t);
       run_steps t' steps
     }"

definition execute_steps :: "step list \<Rightarrow> rbtree option" where
  "execute_steps steps = run_steps new_tree steps"

section \<open>Target trees, validation and the colouring sampler of analyze.py\<close>

text \<open>
  \<open>TNode\<close> has no sentinel and no parent pointer: a target tree is a plain tree, with
  \<open>TNone\<close> for Python's \<open>None\<close>; its fields are \<open>key\<close>, \<open>color\<close>, \<open>left\<close>, \<open>right\<close>.
  A Python \<open>dict\<close> is an association list in insertion order. The table \<open>dp[id(n)]\<close>
  that \<open>assign\<close> reads is the value \<open>build_dp(n)\<close> returned, so the model calls
  \<open>build_dp\<close> again.
\<close>

datatype tnode = TNone | TNode int bool tnode tnode

datatype rb_error = RedViolation int | BlackHeightViolation int int int

fun validate_rb_tree :: "tnode \<Rightarrow> bool option \<Rightarrow> bool \<times> int \<times> rb_error list" where
  "validate_rb_tree TNone parent_color = (True, 1, [])"
| "validate_rb_tree (TNode k c l r) parent_color =
     (let errors0 = (if c = RED \<and> parent_color = Some RED then [RedViolation k] else []);
          (left_ok, left_bh, left_err) = validate_rb_tree l (Some c);
          (right_ok, right_bh, right_err) = validate_rb_tree r (Some c);
          errors1 = errors0 @ left_err @ right_err;
          errors2 = (if left_bh \<noteq> right_bh
                     then errors1 @ [BlackHeightViolation k left_bh right_bh] else errors1);
          bh = left_bh + (if c = BLACK then 1 else 0)
      in (errors2 = [], bh, errors2))"

type_synonym dp = "((bool \<times> int) \<times> int) list"

definition NULL_DP :: dp where
  "NULL_DP = [((BLACK, 1), 1)]"

fun dict_add :: "'k \<Rightarrow> int \<Rightarrow> ('k \<times> int) list \<Rightarrow> ('k \<times> int) list" where
  "dict_add k v [] = [(k, v)]"
| "dict_add k v ((k', v') # d) = (if k' = k then (k', v' + v) # d else (k', v') # dict_add k v d)"

definition dp_right :: "bool \<Rightarrow> int \<Rightarrow> int \<Rightarrow> (bool \<times> int) \<times> int \<Rightarrow> dp \<Rightarrow> dp" where
  "dp_right col lbh lcnt = (\<lambda>((rc, rbh), rcnt) result.
     if col = RED \<and> rc = RED then result
     else if lbh \<noteq> rbh then result
     else dict_add (col, lbh + (if col = BLACK then 1 else 0)) (lcnt * rcnt) result)"

definition dp_left :: "bool \<Rightarrow> dp \<Rightarrow> (bool \<times> int) \<times> int \<Rightarrow> dp \<Rightarrow> dp" where
  "dp_left col r_dp = (\<lambda>((lc, lbh), lcnt) result.
     if col = RED \<and> lc = RED then result
     else fold (dp_right col lbh lcnt) r_dp result)"

fun build_dp :: "tnode \<Rightarrow> dp" where
  "build_dp TNone = NULL_DP"
| "build_dp (TNode k c l r) =
     (let l_dp = build_dp l; r_dp = build_dp r
      in fold (\<lambda>col. fold (dp_left col r_dp) l_dp) [RED, BLACK] [])"

fun all_black :: "tnode \<Rightarrow> tnode" where
  "all_black TNone = TNone"
| "all_black (TNode k c l r) = TNode k BLACK (all_black l) (all_black r)"

type_synonym 'a dist = "('a \<times> rat) list"

definition randint :: "int \<Rightarrow> int \<Rightarrow> int dist" where
  "randint a b = map (\<lambda>i. (i, 1 / of_int (b - a + 1))) [a..b]"

definition dreturn :: "'a \<Rightarrow> 'a dist" where
  "dreturn x = [(x, 1)]"

definition dbind :: "'a dist \<Rightarrow> ('a \<Rightarrow> 'b dist) \<Rightarrow> 'b dist" where
  "dbind d f = concat (map (\<lambda>(x, p). map (\<lambda>(y, q). (y, p * q)) (f x)) d)"

definition prob :: "'a dist \<Rightarrow> 'a \<Rightarrow> rat" where
  "prob d x = sum_list (map snd (filter (\<lambda>(y, p). y = x) d))"

fun pick :: "int \<Rightarrow> int \<Rightarrow> ('a \<times> int) list \<Rightarrow> 'a option" where
  "pick r cum [] = None"
| "pick r cum ((x, cnt) # xs) = (if r \<le> cum + cnt then Some x else pick r (cum + cnt) xs)"

definition pairs_for :: "bool \<Rightarrow> int \<Rightarrow> dp \<Rightarrow> dp \<Rightarrow> (bool \<times> bool \<times> int) list" where
  "pairs_for col child_bh l_dp r_dp =
     concat (map (\<lambda>((lc, lbh), lcnt).
       if col = RED \<and> lc = RED then []
       else if lbh \<noteq> child_bh then []
       else concat (map (\<lambda>((rc, rbh), rcnt).
              if col = RED \<and> rc = RED then []
              else if rbh \<noteq> child_bh then []
              else [(lc, rc, lcnt * rcnt)]) r_dp)) l_dp)"

definition candidates_for ::
  "bool option \<Rightarrow> int \<Rightarrow> dp \<Rightarrow> dp \<Rightarrow> (bool \<times> int \<times> int \<times> (bool \<times> bool \<times> int) list) list" where
  "candidates_for parent_color target_bh l_dp r_dp =
     concat (map (\<lambda>col.
       if parent_color = Some RED \<and> col = RED then []
       else (let child_bh = target_bh - (if col = BLACK then 1 else 0) in
             if child_bh < 1 then []
             else (let pairs = pairs_for col child_bh l_dp r_dp in
                   if pairs \<noteq> [] then [(col, child_bh, sum_list (map (\<lambda>(lc, rc, n). n) pairs), pairs)]
                   else []))) [RED, BLACK])"

fun assign :: "tnode \<Rightarrow> bool option \<Rightarrow> int \<Rightarrow> tnode dist" where
  "assign TNone parent_color target_bh = dreturn TNone"
| "assign (TNode k c l r) parent_color target_bh =
     (let candidates = candidates_for parent_color target_bh (build_dp l) (build_dp r) in
      if candidates = [] then dreturn (TNode k BLACK l r)
      else
        dbind (randint 1 (sum_list (map (\<lambda>(col, child_bh, cnt, pairs). cnt) candidates))) (\<lambda>r1.
          case pick r1 0 (map (\<lambda>(col, child_bh, cnt, pairs). ((col, child_bh, pairs), cnt)) candidates) of
            None \<Rightarrow> dreturn (TNode k c l r)
          | Some (col, child_bh, pairs) \<Rightarrow>
              dbind (randint 1 (sum_list (map (\<lambda>(lc, rc, n). n) pairs))) (\<lambda>r2.
              dbind (assign l (Some col) child_bh) (\<lambda>l'.
              dbind (assign r (Some col) child_bh) (\<lambda>r'.
              dreturn (TNode k col l' r'))))))"

fun set_black :: "tnode \<Rightarrow> tnode" where
  "set_black TNone = TNone"
| "set_black (TNode k c l r) = TNode k BLACK l r"

text \<open>
  \<open>random_valid_rb_coloring\<close>. A draw \<open>random.randint(1, total)\<close> is the uniform
  distribution on \<open>1..total\<close>; the cumulative scans that follow are the deterministic
  \<open>pick\<close>. The result \<open>None\<close> stands for the \<open>TypeError\<close> of a scan that left
  \<open>root_bh = None\<close>.
\<close>

definition random_valid_rb_coloring :: "tnode \<Rightarrow> tnode option dist" where
  "random_valid_rb_coloring rt =
     (if rt = TNone then dreturn (Some rt)
      else
        (let root_dp = build_dp rt;
             valid = filter (\<lambda>(k, v). fst k = BLACK) root_dp in
         if valid = [] then dreturn (Some (all_black rt))
         else
           dbind (randint 1 (sum_list (map snd valid))) (\<lambda>r.
             case pick r 0 (map (\<lambda>((col, bh), cnt). (bh, cnt)) valid) of
               None \<Rightarrow> dreturn None
             | Some root_bh \<Rightarrow> dbind (assign rt None root_bh) (\<lambda>t. dreturn (Some (set_black t))))))"


text \<open>The branch \<open>if not valid:\<close> of \<open>random_valid_rb_coloring\<close> is entered.\<close>

definition takes_fallback :: "tnode \<Rightarrow> bool" where
  "takes_fallback rt = (rt \<noteq> TNone \<and> filter (\<lambda>(k, v). fst k = BLACK) (build_dp rt) = [])"

text \<open>
  A colouring of a shape is another tree with the same structure and keys; it is valid
  when the target validation of analyze.py accepts its colours: BLACK root, and
  \<open>validate_rb_tree\<close> reports no error.
\<close>

fun same_shape :: "tnode \<Rightarrow> tnode \<Rightarrow> bool" where
  "same_shape TNone TNone = True"
| "same_shape (TNode k c l r) (TNode k' c' l' r') = (k = k' \<and> same_shape l l' \<and> same_shape r r')"
| "same_shape _ _ = False"

definition valid_coloring :: "tnode \<Rightarrow> bool" where
  "valid_coloring t = (case t of TNone \<Rightarrow> False | TNode k c l r \<Rightarrow> c = BLACK \<and> fst (validate_rb_tree t None))"


fun bheight :: "tnode \<Rightarrow> int" where
  "bheight TNone = 1"
| "bheight (TNode k c l r) = bheight l + (if c = BLACK then 1 else 0)"

fun rb_ok :: "bool option \<Rightarrow> tnode \<Rightarrow> bool" where
  "rb_ok pc TNone = True"
| "rb_ok pc (TNode k c l r) =
     (\<not> (c = RED \<and> pc = Some RED) \<and> rb_ok (Some c) l \<and> rb_ok (Some c) r \<and> bheight l = bheight r)"

fun rcol :: "tnode \<Rightarrow> bool" where
  "rcol TNone = BLACK"
| "rcol (TNode k c l r) = c"

fun dp_keys :: "tnode \<Rightarrow> (bool \<times> int) set" where
  "dp_keys TNone = {(BLACK, 1)}"
| "dp_keys (TNode k c l r) =
     {(col, lbh + (if col = BLACK then 1 else 0)) | col lc lbh rc.
        (lc, lbh) \<in> dp_keys l \<and> (rc, lbh) \<in> dp_keys r \<and> \<not> (col = RED \<and> lc = RED) \<and> \<not> (col = RED \<and> rc = RED)}"

section \<open>The prefix filter of the search (\<open>_on_search\<close>)\<close>

text \<open>
  The two entry fields after \<open>strip()\<close>: \<open>Blank\<close> is the empty string, \<open>Malformed\<close> a
  text on which \<open>int\<close> raises \<open>ValueError\<close>, \<open>Parsed\<close> the parsed value. \<open>Inl\<close> is a
  refusal (an error box and \<open>return\<close> before the search is prepared); \<open>Inr\<close> is the
  pair \<open>(prefix_n, prefix_vals)\<close> the search starts with.
\<close>

datatype 'a field = Blank | Malformed | Parsed 'a

datatype refusal =
    InvalidPrefixValues
  | PrefixNotPositive
  | TooFewPrefixValues
  | PrefixNotInElements int
  | PrefixDuplicates

definition prefix_filter :: "int field \<Rightarrow> int list field \<Rightarrow> int list \<Rightarrow> refusal + (int \<times> int list)" where
  "prefix_filter pfn pfv elems =
     (if pfn \<noteq> Blank \<and> pfv \<noteq> Blank then
        (case (pfn, pfv) of
           (Parsed prefix_n, Parsed prefix_vals) \<Rightarrow>
             if prefix_n \<le> 0 then Inl PrefixNotPositive
             else if int (length prefix_vals) < prefix_n then Inl TooFewPrefixValues
             else
               (let prefix_vals' = take (nat prefix_n) prefix_vals in
                case find (\<lambda>pv. pv \<notin> set elems) prefix_vals' of
                  Some pv \<Rightarrow> Inl (PrefixNotInElements pv)
                | None \<Rightarrow>
                    if length prefix_vals' \<noteq> length (remdups prefix_vals') then Inl PrefixDuplicates
                    else Inr (prefix_n, prefix_vals'))
         | _ \<Rightarrow> Inl InvalidPrefixValues)
      else Inr (0, []))"

section \<open>Properties of the colouring sampler\<close>

lemma validate_rb_tree_eq:
  "fst (validate_rb_tree t pc) = rb_ok pc t \<and> fst (snd (validate_rb_tree t pc)) = bheight t
   \<and> (snd (snd (validate_rb_tree t pc)) = [] \<longleftrightarrow> rb_ok pc t)"
proof (induction t arbitrary: pc)
  case TNone
  show ?case by simp
next
  case (TNode k c l r)
  obtain lo lb le where L: "validate_rb_tree l (Some c) = (lo, lb, le)" by (cases "validate_rb_tree l (Some c)") auto
  obtain ro rb re where R: "validate_rb_tree r (Some c) = (ro, rb, re)" by (cases "validate_rb_tree r (Some c)") auto
  from TNode.IH(1)[of "Some c"] L have l: "lb = bheight l" "(le = []) = rb_ok (Some c) l" by auto
  from TNode.IH(2)[of "Some c"] R have r: "rb = bheight r" "(re = []) = rb_ok (Some c) r" by auto
  show ?case using l r by (auto simp: L R Let_def)
qed

lemma keys_dict_add: "fst ` set (dict_add k v d) = insert k (fst ` set d)"
proof (induction d)
  case Nil
  show ?case by simp
next
  case (Cons x d)
  obtain a b where x: "x = (a, b)" by (cases x) auto
  show ?case
  proof (cases "a = k")
    case True
    then show ?thesis by (simp add: x)
  next
    case False
    then show ?thesis by (simp add: x Cons.IH insert_commute)
  qed
qed

lemma keys_fold_union:
  assumes "\<And>x res. fst ` set (F x res) = fst ` set res \<union> G x"
  shows "fst ` set (fold F xs res0) = fst ` set res0 \<union> (\<Union>x\<in>set xs. G x)"
  using assms by (induction xs arbitrary: res0) auto

definition right_keys :: "bool \<Rightarrow> int \<Rightarrow> (bool \<times> int) \<times> int \<Rightarrow> (bool \<times> int) set" where
  "right_keys col lbh y =
     (if (col = RED \<and> fst (fst y) = RED) \<or> lbh \<noteq> snd (fst y) then {}
      else {(col, lbh + (if col = BLACK then 1 else 0))})"

definition left_keys :: "bool \<Rightarrow> dp \<Rightarrow> (bool \<times> int) \<times> int \<Rightarrow> (bool \<times> int) set" where
  "left_keys col r_dp x =
     (if col = RED \<and> fst (fst x) = RED then {}
      else (\<Union>y\<in>set r_dp. right_keys col (snd (fst x)) y))"

lemma keys_dp_right:
  "fst ` set (dp_right col lbh lcnt y res) = fst ` set res \<union> right_keys col lbh y"
proof -
  obtain rc rbh rcnt where y: "y = ((rc, rbh), rcnt)" by (cases y) auto
  show ?thesis
    unfolding y dp_right_def right_keys_def
    by (simp add: keys_dict_add del: image_insert)
qed

lemma keys_dp_left:
  "fst ` set (dp_left col r_dp x res) = fst ` set res \<union> left_keys col r_dp x"
proof -
  obtain lc lbh lcnt where x: "x = ((lc, lbh), lcnt)" by (cases x) auto
  have "fst ` set (fold (dp_right col lbh lcnt) r_dp res)
          = fst ` set res \<union> (\<Union>y\<in>set r_dp. right_keys col lbh y)"
    by (rule keys_fold_union) (rule keys_dp_right)
  then show ?thesis by (simp add: x dp_left_def left_keys_def)
qed

lemma keys_fold_dp_left:
  "fst ` set (fold (dp_left col r_dp) l_dp res)
     = fst ` set res \<union> (\<Union>x\<in>set l_dp. left_keys col r_dp x)"
  by (rule keys_fold_union) (rule keys_dp_left)

lemma keys_build_dp_node:
  "fst ` set (build_dp (TNode k c l r))
     = (\<Union>x\<in>set (build_dp l). left_keys RED (build_dp r) x)
       \<union> (\<Union>x\<in>set (build_dp l). left_keys BLACK (build_dp r) x)"
  by (simp add: Let_def keys_fold_dp_left)


lemma mem_right_keys:
  "(p \<in> right_keys col lbh y) =
     (\<not> (col = RED \<and> fst (fst y) = RED) \<and> lbh = snd (fst y)
      \<and> p = (col, lbh + (if col = BLACK then 1 else 0)))"
  unfolding right_keys_def by simp

lemma mem_left_keys:
  "(p \<in> left_keys col r_dp x) =
     (\<not> (col = RED \<and> fst (fst x) = RED) \<and>
      (\<exists>y\<in>set r_dp. \<not> (col = RED \<and> fst (fst y) = RED) \<and> snd (fst x) = snd (fst y)
          \<and> p = (col, snd (fst x) + (if col = BLACK then 1 else 0))))"
  unfolding left_keys_def by (simp add: mem_right_keys)

lemma mem_keys_build_dp_node:
  "(p \<in> fst ` set (build_dp (TNode k c l r))) =
     (\<exists>x\<in>set (build_dp l). \<exists>y\<in>set (build_dp r).
        \<not> (fst p = RED \<and> fst (fst x) = RED) \<and> \<not> (fst p = RED \<and> fst (fst y) = RED)
        \<and> snd (fst x) = snd (fst y) \<and> snd p = snd (fst x) + (if fst p = BLACK then 1 else 0))"
proof -
  obtain col h where p: "p = (col, h)" by (cases p) auto
  show ?thesis
    unfolding keys_build_dp_node Un_iff UN_iff mem_left_keys p
    by (cases col) (simp_all, (blast+)?)
qed

lemma mem_dp_keys_node:
  "(p \<in> dp_keys (TNode k c l r)) =
     (\<exists>a\<in>dp_keys l. \<exists>b\<in>dp_keys r.
        \<not> (fst p = RED \<and> fst a = RED) \<and> \<not> (fst p = RED \<and> fst b = RED)
        \<and> snd a = snd b \<and> snd p = snd a + (if fst p = BLACK then 1 else 0))"
proof -
  obtain col h where p: "p = (col, h)" by (cases p) auto
  show ?thesis unfolding p by (cases col) (simp_all add: Bex_def, (blast+)?)
qed

lemma keys_build_dp: "fst ` set (build_dp t) = dp_keys t"
proof (induction t)
  case TNone
  show ?case by (simp add: NULL_DP_def)
next
  case (TNode k c l r)
  show ?case
  proof (rule set_eqI)
    fix p
    show "(p \<in> fst ` set (build_dp (TNode k c l r))) = (p \<in> dp_keys (TNode k c l r))"
      unfolding mem_keys_build_dp_node mem_dp_keys_node TNode.IH[symmetric]
      by (simp add: Bex_def image_iff)
  qed
qed


fun height_t :: "tnode \<Rightarrow> nat" where
  "height_t TNone = 0"
| "height_t (TNode k c l r) = Suc (max (height_t l) (height_t r))"

fun perfect :: "tnode \<Rightarrow> bool" where
  "perfect TNone = True"
| "perfect (TNode k c l r) = (perfect l \<and> perfect r \<and> height_t l = height_t r)"

lemma rb_ok_Some_BLACK: "rb_ok (Some BLACK) t = rb_ok None t"
  by (cases t) auto

lemma rb_ok_Some_RED: "rb_ok (Some RED) t = (rb_ok None t \<and> rcol t = BLACK)"
  by (cases t) auto

lemma rb_ok_Some: "rb_ok (Some c) t = (rb_ok None t \<and> \<not> (c = RED \<and> rcol t = RED))"
  by (cases c) (simp_all add: rb_ok_Some_BLACK rb_ok_Some_RED)

lemma same_shape_TNone [simp]: "same_shape t' TNone = (t' = TNone)"
  by (cases t') auto

lemma same_shape_TNode:
  "same_shape t' (TNode k c l r) = (\<exists>c' l' r'. t' = TNode k c' l' r' \<and> same_shape l' l \<and> same_shape r' r)"
  by (cases t') auto

lemma dp_keys_colorings:
  "(p \<in> dp_keys t) = (\<exists>t'. same_shape t' t \<and> rcol t' = fst p \<and> bheight t' = snd p \<and> rb_ok None t')"
proof (induction t arbitrary: p)
  case TNone
  show ?case by (cases p) auto
next
  case (TNode k c l r)
  show ?case (is "?L = ?R")
  proof
    assume ?L
    then obtain a b where ab: "a \<in> dp_keys l" "b \<in> dp_keys r"
      "\<not> (fst p = RED \<and> fst a = RED)" "\<not> (fst p = RED \<and> fst b = RED)"
      "snd a = snd b" "snd p = snd a + (if fst p = BLACK then 1 else 0)"
      unfolding mem_dp_keys_node by blast
    from ab(1) obtain l' where l': "same_shape l' l" "rcol l' = fst a" "bheight l' = snd a" "rb_ok None l'"
      unfolding TNode.IH(1) by blast
    from ab(2) obtain r' where r': "same_shape r' r" "rcol r' = fst b" "bheight r' = snd b" "rb_ok None r'"
      unfolding TNode.IH(2) by blast
    have "same_shape (TNode k (fst p) l' r') (TNode k c l r)" using l' r' by simp
    moreover have "rb_ok None (TNode k (fst p) l' r')"
      using l' r' ab by (simp add: rb_ok_Some)
    moreover have "bheight (TNode k (fst p) l' r') = snd p" using l' ab by simp
    ultimately show ?R by (metis rcol.simps(2))
  next
    assume ?R
    then obtain t' where t': "same_shape t' (TNode k c l r)" "rcol t' = fst p" "bheight t' = snd p" "rb_ok None t'"
      by blast
    from t'(1) obtain c' l' r' where eq: "t' = TNode k c' l' r'" and sh: "same_shape l' l" "same_shape r' r"
      unfolding same_shape_TNode by blast
    from t'(4) have ok: "rb_ok None l'" "rb_ok None r'" "\<not> (c' = RED \<and> rcol l' = RED)"
        "\<not> (c' = RED \<and> rcol r' = RED)" "bheight l' = bheight r'"
      unfolding eq by (simp_all add: rb_ok_Some)
    have "(rcol l', bheight l') \<in> dp_keys l" unfolding TNode.IH(1) using sh ok by auto
    moreover have "(rcol r', bheight r') \<in> dp_keys r" unfolding TNode.IH(2) using sh ok by auto
    ultimately show ?L
      unfolding mem_dp_keys_node using ok t'(2,3) unfolding eq
      by (intro bexI[of _ "(rcol l', bheight l')"] bexI[of _ "(rcol r', bheight r')"]) auto
  qed
qed

lemma filter_black_empty:
  "(filter (\<lambda>(k, v). fst k = BLACK) d = []) = (\<not> (\<exists>h. (BLACK, h) \<in> fst ` set d))"
  by (induction d) (auto simp: image_iff)

lemma valid_coloring_eq:
  "valid_coloring t = (t \<noteq> TNone \<and> rcol t = BLACK \<and> rb_ok None t)"
  unfolding valid_coloring_def using validate_rb_tree_eq[of t None]
  by (cases t) (simp_all del: validate_rb_tree.simps)

lemma takes_fallback_iff:
  "takes_fallback t = (t \<noteq> TNone \<and> \<not> (\<exists>t'. same_shape t' t \<and> valid_coloring t'))"
proof -
  have "(\<exists>h. (BLACK, h) \<in> dp_keys t) = (\<exists>t'. same_shape t' t \<and> rcol t' = BLACK \<and> rb_ok None t')"
    unfolding dp_keys_colorings by auto
  moreover have "\<And>t'. t \<noteq> TNone \<Longrightarrow> same_shape t' t \<Longrightarrow> t' \<noteq> TNone"
    by (cases t) (auto simp: same_shape_TNode)
  ultimately show ?thesis
    unfolding takes_fallback_def filter_black_empty keys_build_dp valid_coloring_eq by blast
qed

lemma all_black_perfect:
  "rb_ok pc (all_black t) = perfect t \<and> (perfect t \<longrightarrow> bheight (all_black t) = int (height_t t) + 1)"
  by (induction t arbitrary: pc) auto

lemma all_black_valid_iff: "valid_coloring (all_black t) = (t \<noteq> TNone \<and> perfect t)"
  unfolding valid_coloring_eq using all_black_perfect[of None t] by (cases t) auto

lemma find_None_subset: "(find (\<lambda>pv. pv \<notin> set elems) xs = None) = (set xs \<subseteq> set elems)"
  by (auto simp: find_None_iff)

lemma length_remdups_eq_iff: "(length xs = length (remdups xs)) = distinct xs"
  by (metis distinct_remdups length_remdups_eq remdups_id_iff_distinct)

text \<open>
  C8 (as stated): with a prefix constraint supplied, the search refuses to start when
  the count N does not match the number of supplied values, also when more values than N
  are given. With N = 1 and the values 1, 2 the code starts the search with the prefix [1].
\<close>

theorem C8_prefix_counterexample:
  "prefix_filter (Parsed 1) (Parsed [1, 2]) [1, 2] = Inr (1, [1])"
  by (simp add: prefix_filter_def)

text \<open>
  C8 (amended): with both prefix fields parsed, the search starts exactly when N is
  positive, at least N values are supplied, and the first N values are distinct members
  of the element set; it then uses the first N values and drops the rest. Otherwise it
  refuses: N not positive, fewer values than N, a value among the first N outside the
  element set, or a duplicate among the first N.
\<close>

theorem C8_prefix_filter:
  "prefix_filter (Parsed n) (Parsed vals) elems =
     (if 0 < n \<and> n \<le> int (length vals) \<and> set (take (nat n) vals) \<subseteq> set elems
          \<and> distinct (take (nat n) vals)
      then Inr (n, take (nat n) vals)
      else Inl (if n \<le> 0 then PrefixNotPositive
                else if int (length vals) < n then TooFewPrefixValues
                else case find (\<lambda>pv. pv \<notin> set elems) (take (nat n) vals) of
                       Some pv \<Rightarrow> PrefixNotInElements pv | None \<Rightarrow> PrefixDuplicates))"
  using find_None_subset[of elems "take (nat n) vals"] length_remdups_eq_iff[of "take (nat n) vals"]
  by (auto simp: prefix_filter_def Let_def split: option.splits)

text \<open>
  C6 (as stated): the all-BLACK colouring is valid for every shape, so the fallback
  branch is never entered. The all-BLACK colouring of a two-node chain is not valid, and
  a three-node chain enters the fallback branch.
\<close>

theorem C6_fallback_counterexample:
  "\<not> valid_coloring (all_black (TNode 1 RED TNone (TNode 2 RED TNone TNone)))
   \<and> takes_fallback (TNode 1 RED TNone (TNode 2 RED TNone (TNode 3 RED TNone TNone)))"
  by (simp add: valid_coloring_def takes_fallback_def NULL_DP_def dp_left_def dp_right_def)

text \<open>
  C6 (amended): the all-BLACK colouring of a non-empty shape is valid exactly when the
  shape is perfect, and the fallback branch is entered exactly for the non-empty shapes
  that have no valid colouring with a BLACK root.
\<close>

theorem C6_fallback:
  "valid_coloring (all_black t) = (t \<noteq> TNone \<and> perfect t)
   \<and> takes_fallback t = (t \<noteq> TNone \<and> \<not> (\<exists>t'. same_shape t' t \<and> valid_coloring t'))"
  using all_black_valid_iff[of t] takes_fallback_iff[of t] by simp

text \<open>
  C5: on the perfect three-node shape both colourings below are valid and they are the
  outcomes of the sampler, yet the all-BLACK one has probability 3/4 and the other 1/4:
  \<open>assign(root, None, root_bh)\<close> lets the root draw RED, and \<open>root.color = BLACK\<close> then
  overwrites it.
\<close>

theorem C5_sampler_not_uniform:
  "valid_coloring (TNode 2 BLACK (TNode 1 BLACK TNone TNone) (TNode 3 BLACK TNone TNone))
   \<and> valid_coloring (TNode 2 BLACK (TNode 1 RED TNone TNone) (TNode 3 RED TNone TNone))
   \<and> prob (random_valid_rb_coloring (TNode 2 BLACK (TNode 1 BLACK TNone TNone) (TNode 3 BLACK TNone TNone)))
        (Some (TNode 2 BLACK (TNode 1 BLACK TNone TNone) (TNode 3 BLACK TNone TNone))) = 3 / 4
   \<and> prob (random_valid_rb_coloring (TNode 2 BLACK (TNode 1 BLACK TNone TNone) (TNode 3 BLACK TNone TNone)))
        (Some (TNode 2 BLACK (TNode 1 RED TNone TNone) (TNode 3 RED TNone TNone))) = 1 / 4"
  by code_simp

section \<open>Concrete scenario\<close>

text \<open>
  C7 (as stated): inserting 10, 20, 30 into an empty tree gives the fingerprint
  (20, BLACK, (10, BLACK, -, -), (30, BLACK, -, -)), and deleting 20 afterwards gives
  (30, BLACK, (10, BLACK, -, -), -) or its mirror. The engine gives neither: both children
  are RED after the three insertions, and the remaining child is RED after the deletion.
\<close>

theorem C7_scenario_counterexample:
  "(RBTree_insert 10 new_tree \<bind> RBTree_insert 20 \<bind> RBTree_insert 30 \<bind> to_tuple)
     \<noteq> Some (FNode 20 BLACK (FNode 10 BLACK FNone FNone) (FNode 30 BLACK FNone FNone))
   \<and> (RBTree_insert 10 new_tree \<bind> RBTree_insert 20 \<bind> RBTree_insert 30
        \<bind> RBTree_delete 20 \<bind> to_tuple)
     \<noteq> Some (FNode 30 BLACK (FNode 10 BLACK FNone FNone) FNone)
   \<and> (RBTree_insert 10 new_tree \<bind> RBTree_insert 20 \<bind> RBTree_insert 30
        \<bind> RBTree_delete 20 \<bind> to_tuple)
     \<noteq> Some (FNode 10 BLACK FNone (FNode 30 BLACK FNone FNone))"
  by code_simp

text \<open>
  C7 (amended): inserting 10, 20, 30 into an empty tree gives
  (20, BLACK, (10, RED, -, -), (30, RED, -, -)); deleting 20 afterwards gives
  (30, BLACK, (10, RED, -, -), -).
\<close>

theorem C7_scenario:
  "(RBTree_insert 10 new_tree \<bind> RBTree_insert 20 \<bind> RBTree_insert 30 \<bind> to_tuple)
     = Some (FNode 20 BLACK (FNode 10 RED FNone FNone) (FNode 30 RED FNone FNone))
   \<and> (RBTree_insert 10 new_tree \<bind> RBTree_insert 20 \<bind> RBTree_insert 30
        \<bind> RBTree_delete 20 \<bind> to_tuple)
     = Some (FNode 30 BLACK (FNode 10 RED FNone FNone) FNone)"
  by code_simp

end
